theory Spec2Isabelle
  imports Complex_Main
begin

section \<open>Data model of the tour component\<close>

text \<open>
  The component of \<^verbatim>\<open>src/index.tsx\<close> (\<^verbatim>\<open>Walktour\<close>) is embedded here.
  A JavaScript \<^verbatim>\<open>number\<close> that measures pixels is a \<^typ>\<open>real\<close>: the finite
  values, with exact arithmetic. \<^verbatim>\<open>undefined\<close> and \<^verbatim>\<open>null\<close> in a place typed by
  an object are \<^term>\<open>None\<close>.
\<close>

type_synonym number = real

text \<open>
  The step index is a \<^verbatim>\<open>number\<close> that the component compares and tests for
  truth, and every comparison with \<^verbatim>\<open>NaN\<close> is false: so a step index is a finite
  value or \<^verbatim>\<open>NaN\<close>. (The infinities behave in each of these comparisons as a finite
  value beyond every step count, and are not told apart from one.) The operations are
  those the source applies to an index: \<^verbatim>\<open>i >= x\<close>, \<^verbatim>\<open>i < x\<close>, \<^verbatim>\<open>i + x\<close>,
  \<^verbatim>\<open>i - x\<close>, \<^verbatim>\<open>i === x\<close> and the truth test of \<^verbatim>\<open>i || 0\<close>.
\<close>

datatype index = Idx real | NaN

fun index_ge :: "index \<Rightarrow> real \<Rightarrow> bool" where
  "index_ge (Idx r) x = (r \<ge> x)"
| "index_ge NaN x = False"

fun index_lt :: "index \<Rightarrow> real \<Rightarrow> bool" where
  "index_lt (Idx r) x = (r < x)"
| "index_lt NaN x = False"

fun index_plus :: "index \<Rightarrow> real \<Rightarrow> index" where
  "index_plus (Idx r) x = Idx (r + x)"
| "index_plus NaN x = NaN"

fun index_minus :: "index \<Rightarrow> real \<Rightarrow> index" where
  "index_minus (Idx r) x = Idx (r - x)"
| "index_minus NaN x = NaN"

fun index_eq :: "index \<Rightarrow> real \<Rightarrow> bool" where
  "index_eq (Idx r) x = (r = x)"
| "index_eq NaN x = False"

fun index_truthy :: "index \<Rightarrow> bool" where
  "index_truthy (Idx r) = (r \<noteq> 0)"
| "index_truthy NaN = False"

record Coords =
  cx :: number  \<comment> \<open>field \<^verbatim>\<open>x\<close>\<close>
  cy :: number  \<comment> \<open>field \<^verbatim>\<open>y\<close>\<close>

record ClientRect =
  rect_top :: number
  rect_left :: number
  rect_width :: number
  rect_height :: number
  rect_right :: number
  rect_bottom :: number

text \<open>Exceptions of the source: a property read on \<^verbatim>\<open>undefined\<close>, the
  \<^verbatim>\<open>Error\<close> thrown by \<^verbatim>\<open>getTargetData\<close> with its message, and the exception of
  \<^verbatim>\<open>document.querySelector\<close> on a selector that is not valid.\<close>

datatype error = TypeError | Error string | DOMException

text \<open>The values an option of the tour can hold. \<^verbatim>\<open>WalktourStyles\<close> is declared in
  \<^verbatim>\<open>./defaultstyles\<close>, a module whose code is not available: only its
  \<^verbatim>\<open>container\<close> entry is read by the code modelled here, so a style sheet is that entry. A style object
  (\<^verbatim>\<open>React.CSSProperties\<close>) is a map from property names to values. Renderers are
  opaque functions, told apart by a number.\<close>

datatype cssval = CssUndefined | CssNum number | CssStr string

type_synonym CSSProperties = "string \<rightharpoonup> cssval"

record WalktourStyles =
  container :: CSSProperties

datatype 'o jsval =
    Undefined
  | Num number
  | Str string
  | Bool bool
  | Orientations "'o list"
  | Styles WalktourStyles
  | Renderer nat

text \<open>An options object (\<^verbatim>\<open>WalktourOptions\<close>, and the renderer fields of a step) is a map
  from its own property names to values: a key that is absent differs from a key that is
  present with the value \<^verbatim>\<open>undefined\<close>, as object spread tells them apart.\<close>

type_synonym 'o WalktourOptions = "string \<rightharpoonup> 'o jsval"

record 'o Step =
  querySelector :: string
  title :: string
  description :: string
  stepOptions :: "'o WalktourOptions"

record 'o WalktourProps =
  steps :: "'o Step list"
  isVisible :: bool
  initialStepIndex :: "index option"
  options :: "'o WalktourOptions"

text \<open>The four \<^verbatim>\<open>React.useState\<close> cells of the component.\<close>

record WalktourState =
  isVisibleState :: bool
  tooltipPosition :: "Coords option"
  targetData :: "ClientRect option"
  currentStepIndex :: index

section \<open>Step lookup and navigation\<close>

text \<open>\<^verbatim>\<open>steps[stepIndex]\<close>: an array read yields \<^verbatim>\<open>undefined\<close> unless the index is a
  whole number from 0 below the length.\<close>

fun getStep :: "index \<Rightarrow> 'a list \<Rightarrow> 'a option" where
  "getStep (Idx r) ss =
     (if of_int \<lfloor>r\<rfloor> = r \<and> 0 \<le> r \<and> r < real (length ss)
      then Some (ss ! nat \<lfloor>r\<rfloor>) else None)"
| "getStep NaN ss = None"

text \<open>\<^verbatim>\<open>useState(initialStepIndex || 0)\<close> and the other initial cells.\<close>

definition initialState :: "'o WalktourProps \<Rightarrow> WalktourState" where
  "initialState props =
     \<lparr> isVisibleState = isVisible props,
       tooltipPosition = None,
       targetData = None,
       currentStepIndex =
         (case initialStepIndex props of
            None \<Rightarrow> Idx 0
          | Some i \<Rightarrow> if index_truthy i then i else Idx 0) \<rparr>"

definition goToStep :: "'o WalktourProps \<Rightarrow> index \<Rightarrow> WalktourState \<Rightarrow> WalktourState" where
  "goToStep props stepIndex st =
     (if index_ge stepIndex (real (length (steps props))) \<or> index_lt stepIndex 0 then st
      else st\<lparr>currentStepIndex := stepIndex\<rparr>)"

text \<open>The callbacks \<^verbatim>\<open>next\<close> and \<^verbatim>\<open>prev\<close> are closures of one render: the
  \<^verbatim>\<open>currentStepIndex\<close> they read is the index that render saw (the state
  \<open>rendered\<close>), whatever has been stored since, while the state they update is the
  pending one. (\<^verbatim>\<open>next\<close> is a keyword here, hence \<open>nextStep\<close>.)\<close>

definition nextStep ::
  "'o WalktourProps \<Rightarrow> WalktourState \<Rightarrow> WalktourState \<Rightarrow> WalktourState" where
  "nextStep props rendered st = goToStep props (index_plus (currentStepIndex rendered) 1) st"

definition prev ::
  "'o WalktourProps \<Rightarrow> WalktourState \<Rightarrow> WalktourState \<Rightarrow> WalktourState" where
  "prev props rendered st = goToStep props (index_minus (currentStepIndex rendered) 1) st"

definition skip :: "'o WalktourProps \<Rightarrow> WalktourState \<Rightarrow> WalktourState" where
  "skip props st = (goToStep props (Idx 0) st)\<lparr>isVisibleState := False\<rparr>"

text \<open>The calls a tooltip can make through the \<^verbatim>\<open>WalktourLogic\<close> object of a render
  (\<^verbatim>\<open>close\<close> is \<^verbatim>\<open>skip\<close>). The calls of one event handler are all made on the
  object of the render that drew the tooltip: they share the state \<open>rendered\<close>, and
  each updates the state the one before left. After the handler React renders again,
  and the next handler's calls close over the new state.\<close>

datatype WalktourLogic = Next | Prev | Close | GoToStep index

fun call ::
  "'o WalktourProps \<Rightarrow> WalktourState \<Rightarrow> WalktourLogic \<Rightarrow> WalktourState \<Rightarrow> WalktourState" where
  "call props rendered Next st = nextStep props rendered st"
| "call props rendered Prev st = prev props rendered st"
| "call props rendered Close st = skip props st"
| "call props rendered (GoToStep n) st = goToStep props n st"

fun calls ::
  "'o WalktourProps \<Rightarrow> WalktourState \<Rightarrow> WalktourLogic list \<Rightarrow> WalktourState
     \<Rightarrow> WalktourState" where
  "calls props rendered [] st = st"
| "calls props rendered (c # cs) st = calls props rendered cs (call props rendered c st)"

fun handlers ::
  "'o WalktourProps \<Rightarrow> WalktourLogic list list \<Rightarrow> WalktourState \<Rightarrow> WalktourState" where
  "handlers props [] st = st"
| "handlers props (cs # rest) st = handlers props rest (calls props st cs st)"

text \<open>A whole number, as an index: \<^verbatim>\<open>Number.isInteger\<close>.\<close>

fun whole :: "index \<Rightarrow> bool" where
  "whole (Idx r) = (of_int \<lfloor>r\<rfloor> = r)"
| "whole NaN = False"

text \<open>The current step index is a valid index: a whole number in
  \<open>[0, steps.length)\<close>.\<close>

definition validIndex :: "'o WalktourProps \<Rightarrow> WalktourState \<Rightarrow> bool" where
  "validIndex props st =
     (whole (currentStepIndex st) \<and> index_ge (currentStepIndex st) 0 \<and>
      index_lt (currentStepIndex st) (real (length (steps props))))"

text \<open>An argument of \<^verbatim>\<open>goToStep\<close> that is a whole number, or that the guard of
  \<^verbatim>\<open>goToStep\<close> turns away.\<close>

definition wholeOrRejected :: "'o WalktourProps \<Rightarrow> index \<Rightarrow> bool" where
  "wholeOrRejected props n =
     (whole n \<or> index_ge n (real (length (steps props))) \<or> index_lt n 0)"

fun goToStepArgs :: "WalktourLogic list \<Rightarrow> index list" where
  "goToStepArgs [] = []"
| "goToStepArgs (GoToStep n # cs) = n # goToStepArgs cs"
| "goToStepArgs (c # cs) = goToStepArgs cs"

section \<open>Option merge\<close>

text \<open>\<^verbatim>\<open>walktourDefaultProps\<close>. The constant \<^verbatim>\<open>defaultStyles\<close> comes from
  \<^verbatim>\<open>./defaultstyles\<close>, a module whose code is not available: it is a parameter.\<close>

definition walktourDefaultProps :: "WalktourStyles \<Rightarrow> 'o WalktourOptions" where
  "walktourDefaultProps defaultStyles =
     [''prevLabel'' \<mapsto> Str ''prev'',
      ''nextLabel'' \<mapsto> Str ''next'',
      ''skipLabel'' \<mapsto> Str ''skip'',
      ''styles'' \<mapsto> Styles defaultStyles,
      ''tooltipWidth'' \<mapsto> Num 250,
      ''maskPadding'' \<mapsto> Num 5,
      ''tooltipSeparation'' \<mapsto> Num 10,
      ''transition'' \<mapsto> Str ''top 200ms ease, left 200ms ease'',
      ''disableMaskInteraction'' \<mapsto> Bool False]"

text \<open>\<^verbatim>\<open>{...walktourDefaultProps, ...props, ...currentStepContent}\<close>: later spreads
  overwrite earlier keys, and spreading \<^verbatim>\<open>undefined\<close> adds nothing. Only the option
  keys are read from the result, so the other fields of the props and of the step are
  left out of the maps.\<close>

definition spreadStep :: "'o Step option \<Rightarrow> 'o WalktourOptions" where
  "spreadStep currentStepContent =
     (case currentStepContent of None \<Rightarrow> Map.empty | Some s \<Rightarrow> stepOptions s)"

definition mergedOptions ::
  "WalktourStyles \<Rightarrow> 'o WalktourProps \<Rightarrow> 'o Step option \<Rightarrow> 'o WalktourOptions" where
  "mergedOptions defaultStyles props currentStepContent =
     walktourDefaultProps defaultStyles ++ options props ++ spreadStep currentStepContent"

text \<open>Reading a destructured name: an absent key reads as \<^verbatim>\<open>undefined\<close>.\<close>

definition getProp :: "'o WalktourOptions \<Rightarrow> string \<Rightarrow> 'o jsval" where
  "getProp obj k = (case obj k of None \<Rightarrow> Undefined | Some v \<Rightarrow> v)"

text \<open>JavaScript truthiness.\<close>

fun truthy :: "'o jsval \<Rightarrow> bool" where
  "truthy Undefined = False"
| "truthy (Num n) = (n \<noteq> 0)"
| "truthy (Str s) = (s \<noteq> [])"
| "truthy (Bool b) = b"
| "truthy (Orientations os) = True"
| "truthy (Styles s) = True"
| "truthy (Renderer f) = True"

text \<open>A value in a place that TypeScript types \<^verbatim>\<open>number | undefined\<close>
  (\<^verbatim>\<open>maskPadding\<close>, \<^verbatim>\<open>tooltipSeparation\<close>) or
  \<^verbatim>\<open>CardinalOrientation[] | undefined\<close>: the value, or \<^term>\<open>None\<close> for
  \<^verbatim>\<open>undefined\<close>.\<close>

fun asNumber :: "'o jsval \<Rightarrow> number option" where
  "asNumber (Num n) = Some n"
| "asNumber v = None"

fun asOrientations :: "'o jsval \<Rightarrow> 'o list option" where
  "asOrientations (Orientations os) = Some os"
| "asOrientations v = None"

fun toCss :: "'o jsval \<Rightarrow> cssval" where
  "toCss (Num n) = CssNum n"
| "toCss (Str s) = CssStr s"
| "toCss v = CssUndefined"

section \<open>The positioning module and the document\<close>

text \<open>The object literal passed to \<^verbatim>\<open>getTooltipPosition\<close>.\<close>

record 'o PlacementRequest =
  target :: ClientRect
  tooltip :: "ClientRect option"
  padding :: "number option"
  tooltipSeparation :: "number option"
  orientationPreferences :: "'o list option"

text \<open>The code of the imported module \<^verbatim>\<open>./positioning\<close> is not available: the two
  functions the component calls are parameters, taken as total functions of their
  arguments in the environment (scroll offset, viewport) of the call.\<close>

record 'o Positioning =
  getElementCoords :: "ClientRect \<Rightarrow> bool \<Rightarrow> Coords"
  getTooltipPosition :: "'o PlacementRequest \<Rightarrow> Coords option"

text \<open>The document, as the component reads it: \<^verbatim>\<open>querySelector\<close> followed by
  \<^verbatim>\<open>getBoundingClientRect\<close> on the element found (an exception for a selector that
  is not valid, \<^term>\<open>None\<close> when nothing matches), and the same for
  \<^verbatim>\<open>getElementById\<close>.\<close>

record Document =
  document_querySelector :: "string \<Rightarrow> error + ClientRect option"
  document_getElementById :: "string \<Rightarrow> ClientRect option"

definition getTargetData :: "Document \<Rightarrow> string \<Rightarrow> error + ClientRect" where
  "getTargetData document selector =
     (case document_querySelector document selector of
        Inl e \<Rightarrow> Inl e
      | Inr element \<Rightarrow>
          (case element of
             Some rect \<Rightarrow> Inr rect
           | None \<Rightarrow>
               Inl (Error (''element specified by  '' @ [CHR 0x22] @ selector @ [CHR 0x22] @
                           '' could not be found''))))"

section \<open>Effects\<close>

text \<open>The first \<^verbatim>\<open>useEffect\<close>, run once after the first render.\<close>

definition mountEffect :: "'o WalktourProps \<Rightarrow> WalktourState \<Rightarrow> WalktourState" where
  "mountEffect props st = goToStep props (currentStepIndex st) st"

text \<open>The request built in the second effect, from the options merged in the render
  that created the effect.\<close>

definition placementRequest ::
  "'o WalktourOptions \<Rightarrow> ClientRect \<Rightarrow> ClientRect option \<Rightarrow> 'o PlacementRequest" where
  "placementRequest merged td tooltipData =
     \<lparr> target = td,
       tooltip = tooltipData,
       padding = asNumber (getProp merged ''maskPadding''),
       tooltipSeparation = asNumber (getProp merged ''tooltipSeparation''),
       orientationPreferences = asOrientations (getProp merged ''orientationPreferences'') \<rparr>"

text \<open>The second \<^verbatim>\<open>useEffect\<close>, run after a render when the step index changed. An
  exception leaves the effect with nothing stored. The call \<^verbatim>\<open>tooltip.focus()\<close> changes
  no state of the component and is left out.\<close>

definition placementEffect ::
  "'o Positioning \<Rightarrow> Document \<Rightarrow> WalktourStyles \<Rightarrow> 'o WalktourProps \<Rightarrow> WalktourState
     \<Rightarrow> error + WalktourState" where
  "placementEffect positioning document defaultStyles props st =
     (if \<not> isVisibleState st then Inr st
      else
        let tooltipData = document_getElementById document ''walktour-tooltip'';
            currentStepContent = getStep (currentStepIndex st) (steps props);
            merged = mergedOptions defaultStyles props currentStepContent
        in case currentStepContent of
             None \<Rightarrow> Inl TypeError
           | Some step \<Rightarrow>
               (case getTargetData document (querySelector step) of
                  Inl e \<Rightarrow> Inl e
                | Inr td \<Rightarrow>
                    Inr (st\<lparr> targetData := Some td,
                             tooltipPosition :=
                               getTooltipPosition positioning
                                 (placementRequest merged td tooltipData) \<rparr>)))"

section \<open>Rendering\<close>

record MaskStyle =
  mask_position :: string
  mask_top :: number
  mask_left :: number
  mask_height :: number
  mask_width :: number
  mask_boxShadow :: string
  mask_borderRadius :: cssval
  mask_pointerEvents :: string

text \<open>\<^verbatim>\<open>TourMask\<close>; the parameters with a default (\<^verbatim>\<open>padding = 0\<close>,
  \<^verbatim>\<open>roundedCutout = true\<close>) are optional arguments.\<close>

definition TourMask ::
  "'o Positioning \<Rightarrow> ClientRect option \<Rightarrow> bool \<Rightarrow> number option \<Rightarrow> bool option
     \<Rightarrow> MaskStyle option" where
  "TourMask positioning targetRect disableMaskInteraction paddingArg roundedCutoutArg =
     (case targetRect of
        None \<Rightarrow> None
      | Some t \<Rightarrow>
          let pad = (case paddingArg of None \<Rightarrow> 0 | Some v \<Rightarrow> v);
              roundedCutout = (case roundedCutoutArg of None \<Rightarrow> True | Some b \<Rightarrow> b);
              coords = getElementCoords positioning t True
          in Some \<lparr> mask_position = ''absolute'',
                    mask_top = cy coords - pad,
                    mask_left = cx coords - pad,
                    mask_height = rect_height t + (pad * 2),
                    mask_width = rect_width t + (pad * 2),
                    mask_boxShadow = ''0 0 0 9999px rgb(0,0,0,0.6)'',
                    mask_borderRadius = (if roundedCutout then CssStr ''5px'' else CssNum 0),
                    mask_pointerEvents = (if disableMaskInteraction then ''auto'' else ''none'') \<rparr>)"

text \<open>\<^verbatim>\<open>styles.container\<close>: a read on \<^verbatim>\<open>undefined\<close> throws; on any other value that is
  not a style sheet it yields \<^verbatim>\<open>undefined\<close>, whose spread adds nothing.\<close>

fun containerOf :: "'o jsval \<Rightarrow> error + CSSProperties" where
  "containerOf (Styles s) = Inr (container s)"
| "containerOf Undefined = Inl TypeError"
| "containerOf v = Inr Map.empty"

definition tooltipStyle :: "'o WalktourOptions \<Rightarrow> Coords option \<Rightarrow> error + CSSProperties" where
  "tooltipStyle merged position =
     (case (if truthy (getProp merged ''customTooltipRenderer'') then Inr Map.empty
            else containerOf (getProp merged ''styles'')) of
        Inl e \<Rightarrow> Inl e
      | Inr base \<Rightarrow>
          Inr (base ++
            [''position'' \<mapsto> CssStr ''absolute'',
             ''width'' \<mapsto> toCss (getProp merged ''tooltipWidth''),
             ''top'' \<mapsto> (case position of None \<Rightarrow> CssUndefined | Some c \<Rightarrow> CssNum (cy c)),
             ''left'' \<mapsto> (case position of None \<Rightarrow> CssUndefined | Some c \<Rightarrow> CssNum (cx c)),
             ''transition'' \<mapsto> toCss (getProp merged ''transition''),
             ''visibility'' \<mapsto> CssStr (if position \<noteq> None then ''visible'' else ''hidden'')]))"

text \<open>What the tooltip shows. A custom renderer is opaque: the model records which one
  drew a part and with which text, and takes it to return. Calling a value that is not a
  function throws.\<close>

datatype part = Custom nat string | Plain string

datatype footer = CustomFooter nat | Buttons bool bool

datatype content = CustomTooltip nat | Parts part part footer

definition renderPart :: "'o jsval \<Rightarrow> string \<Rightarrow> error + part" where
  "renderPart renderer txt =
     (if truthy renderer
      then (case renderer of Renderer f \<Rightarrow> Inr (Custom f txt) | _ \<Rightarrow> Inl TypeError)
      else Inr (Plain txt))"

text \<open>The footer: with a custom footer renderer among the merged options, the step's own
  \<^verbatim>\<open>customFooterRenderer\<close> is called; otherwise the buttons, \<^verbatim>\<open>prev\<close> disabled on the
  first step and \<^verbatim>\<open>next\<close> on the last.\<close>

definition renderFooter ::
  "'o WalktourOptions \<Rightarrow> 'o Step \<Rightarrow> index \<Rightarrow> nat \<Rightarrow> error + footer" where
  "renderFooter merged step idx n =
     (if truthy (getProp merged ''customFooterRenderer'')
      then (case getProp (stepOptions step) ''customFooterRenderer'' of
              Renderer f \<Rightarrow> Inr (CustomFooter f)
            | _ \<Rightarrow> Inl TypeError)
      else Inr (Buttons (index_eq idx 0) (index_eq (index_plus idx 1) (real n))))"

definition renderContent ::
  "'o WalktourOptions \<Rightarrow> 'o Step option \<Rightarrow> index \<Rightarrow> nat \<Rightarrow> error + content" where
  "renderContent merged currentStepContent idx n =
     (let customTooltipRenderer = getProp merged ''customTooltipRenderer'' in
      if truthy customTooltipRenderer
      then (case customTooltipRenderer of
              Renderer f \<Rightarrow> Inr (CustomTooltip f)
            | _ \<Rightarrow> Inl TypeError)
      else
        (case currentStepContent of
           None \<Rightarrow> Inl TypeError
         | Some step \<Rightarrow>
             (case renderPart (getProp merged ''customTitleRenderer'') (title step) of
                Inl e \<Rightarrow> Inl e
              | Inr t \<Rightarrow>
                  (case renderPart (getProp merged ''customDescriptionRenderer'')
                          (description step) of
                     Inl e \<Rightarrow> Inl e
                   | Inr d \<Rightarrow>
                       (case renderFooter merged step idx n of
                          Inl e \<Rightarrow> Inl e
                        | Inr f \<Rightarrow> Inr (Parts t d f))))))"

record View =
  view_mask :: "MaskStyle option"
  view_tooltipStyle :: CSSProperties
  view_content :: content

text \<open>One render of \<^verbatim>\<open>Walktour\<close>: \<^verbatim>\<open>null\<close> (\<^term>\<open>None\<close>) while the tour is not
  visible, otherwise the mask and the tooltip.\<close>

definition render ::
  "'o Positioning \<Rightarrow> WalktourStyles \<Rightarrow> 'o WalktourProps \<Rightarrow> WalktourState
     \<Rightarrow> error + View option" where
  "render positioning defaultStyles props st =
     (let currentStepContent = getStep (currentStepIndex st) (steps props);
          merged = mergedOptions defaultStyles props currentStepContent
      in if \<not> isVisibleState st then Inr None
         else
           (case tooltipStyle merged (tooltipPosition st) of
              Inl e \<Rightarrow> Inl e
            | Inr css \<Rightarrow>
                (case renderContent merged currentStepContent (currentStepIndex st)
                        (length (steps props)) of
                   Inl e \<Rightarrow> Inl e
                 | Inr c \<Rightarrow>
                     Inr (Some \<lparr> view_mask =
                                   TourMask positioning (targetData st)
                                     (truthy (getProp merged ''disableMaskInteraction''))
                                     (asNumber (getProp merged ''maskPadding'')) None,
                                 view_tooltipStyle = css,
                                 view_content = c \<rparr>))))"

section \<open>The placement engine, from its specification\<close>

text \<open>Modelled from the spec: the geometry utility \<^verbatim>\<open>toAbsoluteCoords\<close>
  (\<^verbatim>\<open>getElementCoords\<close> of \<^verbatim>\<open>./positioning\<close>, whose code is missing). It
  adds the page scroll offset \<open>S\<close> to the top-left corner of a viewport-relative
  rectangle and, when \<^verbatim>\<open>roundToInt\<close> is set, rounds both coordinates to the nearest
  integer.\<close>

definition toAbsoluteCoords :: "Coords \<Rightarrow> ClientRect \<Rightarrow> bool \<Rightarrow> Coords" where
  "toAbsoluteCoords S rect roundToInt =
     (let c = \<lparr> cx = rect_left rect + cx S, cy = rect_top rect + cy S \<rparr>
      in if roundToInt
         then \<lparr> cx = of_int (round (cx c)), cy = of_int (round (cy c)) \<rparr>
         else c)"

text \<open>Modelled from the spec: what an orientation defines (section 3 of the spec). For a
  target rectangle, a tooltip rectangle, a padding and a separation it gives the
  tooltip's top-left coordinates and the amount by which the tooltip would exceed the
  viewport on each side. The spec names no formula and does not list the orientations, so
  the table of orientations is a parameter, over any type \<open>'o\<close> of orientations.\<close>

record Overflow =
  over_top :: number
  over_right :: number
  over_bottom :: number
  over_left :: number

record Candidate =
  cand_coords :: Coords
  cand_overflow :: Overflow

type_synonym 'o OrientationTable =
  "'o \<Rightarrow> ClientRect \<Rightarrow> ClientRect \<Rightarrow> number option \<Rightarrow> number option \<Rightarrow> Candidate"

text \<open>Modelled from the spec: an orientation fits when all four overflow amounts are at
  most 0 (the fit test of \<^verbatim>\<open>resolvePlacement\<close>).\<close>

definition fits :: "Candidate \<Rightarrow> bool" where
  "fits c =
     (over_top (cand_overflow c) \<le> 0 \<and> over_right (cand_overflow c) \<le> 0 \<and>
      over_bottom (cand_overflow c) \<le> 0 \<and> over_left (cand_overflow c) \<le> 0)"

text \<open>Modelled from the spec: the iteration of \<^verbatim>\<open>resolvePlacement\<close> over the
  orientations in priority order, stopping at the first that fits.\<close>

fun firstFit :: "('o \<Rightarrow> Candidate) \<Rightarrow> 'o list \<Rightarrow> 'o option" where
  "firstFit cand [] = None"
| "firstFit cand (a # rest) = (if fits (cand a) then Some a else firstFit cand rest)"

text \<open>Modelled from the spec: the orientation \<^verbatim>\<open>resolvePlacement\<close> chooses, the first
  that fits and, when none fits, the first of the list whatever its fit.\<close>

definition chooseOrientation :: "('o \<Rightarrow> Candidate) \<Rightarrow> 'o list \<Rightarrow> 'o option" where
  "chooseOrientation cand prefs =
     (case firstFit cand prefs of
        Some a \<Rightarrow> Some a
      | None \<Rightarrow> (case prefs of [] \<Rightarrow> None | a # rest \<Rightarrow> Some a))"

text \<open>Modelled from the spec: the candidate an orientation defines for a request whose
  tooltip has been measured as \<open>tt\<close> (steps 1 and 2 of the iteration of
  \<^verbatim>\<open>resolvePlacement\<close>).\<close>

definition candidate ::
  "'o OrientationTable \<Rightarrow> 'o PlacementRequest \<Rightarrow> ClientRect \<Rightarrow> 'o \<Rightarrow> Candidate" where
  "candidate orient request tt a =
     orient a (target request) tt (padding request) (tooltipSeparation request)"

text \<open>Modelled from the spec: the orientation resolver \<^verbatim>\<open>resolvePlacement\<close>
  (\<^verbatim>\<open>getTooltipPosition\<close> of \<^verbatim>\<open>./positioning\<close>, whose code is missing).
  Without a measured tooltip the result is \<^verbatim>\<open>undefined\<close>. Otherwise the list
  tried is the caller's preferences, or the default ordering \<open>defaultOrientations\<close>
  when the list is absent or empty, and the result is the coordinates the chosen
  orientation defines. The default ordering covers all orientations; were it empty there
  would be nothing to choose, and the model yields \<^term>\<open>None\<close>.\<close>

definition resolvePlacement ::
  "'o OrientationTable \<Rightarrow> 'o list \<Rightarrow> 'o PlacementRequest \<Rightarrow> Coords option" where
  "resolvePlacement orient defaultOrientations request =
     (case tooltip request of
        None \<Rightarrow> None
      | Some tt \<Rightarrow>
          let cand = candidate orient request tt;
              prefs = (case orientationPreferences request of
                         None \<Rightarrow> defaultOrientations
                       | Some [] \<Rightarrow> defaultOrientations
                       | Some (a # rest) \<Rightarrow> a # rest)
          in map_option (\<lambda>a. cand_coords (cand a)) (chooseOrientation cand prefs))"

text \<open>Modelled from the spec: the module \<^verbatim>\<open>./positioning\<close> as a whole, for a scroll
  offset, a table of orientations and a default ordering.\<close>

definition specPositioning ::
  "Coords \<Rightarrow> 'o OrientationTable \<Rightarrow> 'o list \<Rightarrow> 'o Positioning" where
  "specPositioning S orient defaultOrientations =
     \<lparr> getElementCoords = toAbsoluteCoords S,
       getTooltipPosition = resolvePlacement orient defaultOrientations \<rparr>"

section \<open>Sample inputs\<close>

text \<open>Concrete inputs on which the theorems below are exercised: the target and the
  tooltip of scenario 1 of the spec (section 8), the same target near the bottom edge
  (scenario 2), a tour of three steps, and a document in which only the first two
  selectors match an element and the tooltip has been rendered.\<close>

definition sampleTarget :: "number \<Rightarrow> ClientRect" where
  "sampleTarget y =
     \<lparr> rect_top = y, rect_left = 100, rect_width = 50, rect_height = 50,
       rect_right = 150, rect_bottom = y + 50 \<rparr>"

definition sampleTooltip :: ClientRect where
  "sampleTooltip =
     \<lparr> rect_top = 0, rect_left = 0, rect_width = 200, rect_height = 80,
       rect_right = 200, rect_bottom = 80 \<rparr>"

text \<open>A sample table of three orientations, for a viewport of 1024 by 768 without
  scroll. As in scenarios 1 and 2 of the spec, \<^verbatim>\<open>south\<close> places the tooltip below the
  masked region, at \<open>y = top + height + padding + separation\<close>; it is left-aligned
  with the target here. The spec gives no formula for the other orientations:
  \<^verbatim>\<open>north\<close> and \<^verbatim>\<open>east\<close> are the sample's own, by symmetry.\<close>

definition sampleOrient :: "string OrientationTable" where
  "sampleOrient a t tt p s =
     (let gap = (case p of None \<Rightarrow> 0 | Some v \<Rightarrow> v) + (case s of None \<Rightarrow> 0 | Some v \<Rightarrow> v);
          c = (if a = ''south''
               then \<lparr> cx = rect_left t, cy = rect_top t + rect_height t + gap \<rparr>
               else if a = ''north''
               then \<lparr> cx = rect_left t, cy = rect_top t - gap - rect_height tt \<rparr>
               else \<lparr> cx = rect_left t + rect_width t + gap, cy = rect_top t \<rparr>)
      in \<lparr> cand_coords = c,
           cand_overflow =
             \<lparr> over_top = - cy c,
               over_right = cx c + rect_width tt - 1024,
               over_bottom = cy c + rect_height tt - 768,
               over_left = - cx c \<rparr> \<rparr>)"

definition samplePositioning :: "string Positioning" where
  "samplePositioning =
     specPositioning \<lparr> cx = 0, cy = 0 \<rparr> sampleOrient [''south'', ''north'', ''east'']"

definition sampleRequest :: "number \<Rightarrow> string list \<Rightarrow> string PlacementRequest" where
  "sampleRequest y prefs =
     \<lparr> target = sampleTarget y, tooltip = Some sampleTooltip, padding = Some 5,
       tooltipSeparation = Some 10, orientationPreferences = Some prefs \<rparr>"

definition sampleStep :: "string \<Rightarrow> string Step" where
  "sampleStep selector =
     \<lparr> querySelector = selector, title = ''Title'', description = ''Text'',
       stepOptions = Map.empty \<rparr>"

definition sampleProps :: "string WalktourProps" where
  "sampleProps =
     \<lparr> steps = [sampleStep ''#one'', sampleStep ''#two'', sampleStep ''#missing''],
       isVisible = True,
       initialStepIndex = None,
       options = Map.empty \<rparr>"

definition sampleDocument :: Document where
  "sampleDocument =
     \<lparr> document_querySelector =
         (\<lambda>selector.
            if selector = ''#one'' then Inr (Some (sampleTarget 100))
            else if selector = ''#two'' then Inr (Some (sampleTarget 700))
            else if selector = ''##'' then Inl DOMException
            else Inr None),
       document_getElementById =
         (\<lambda>ident. if ident = ''walktour-tooltip'' then Some sampleTooltip else None) \<rparr>"

definition sampleStyles :: WalktourStyles where
  "sampleStyles = \<lparr> container = [''top'' \<mapsto> CssNum 1, ''color'' \<mapsto> CssStr ''black''] \<rparr>"

definition sampleState :: "index \<Rightarrow> WalktourState" where
  "sampleState i =
     \<lparr> isVisibleState = True, tooltipPosition = None, targetData = None,
       currentStepIndex = i \<rparr>"

section \<open>Navigation and the validity of the step index\<close>

lemma validIndex_cases:
  "validIndex props st \<longleftrightarrow>
     (\<exists>r. currentStepIndex st = Idx r \<and> of_int \<lfloor>r\<rfloor> = r \<and> 0 \<le> r \<and>
          r < real (length (steps props)))"
  by (cases "currentStepIndex st") (simp_all add: validIndex_def)

lemma validIndex_getStep:
  assumes "validIndex props st"
  shows "\<exists>k. currentStepIndex st = Idx (real k) \<and> k < length (steps props) \<and>
             getStep (currentStepIndex st) (steps props) = Some (steps props ! k)"
proof -
  obtain r where r: "currentStepIndex st = Idx r" "of_int \<lfloor>r\<rfloor> = r" "0 \<le> r"
    "r < real (length (steps props))"
    using assms unfolding validIndex_cases by blast
  from r(3) have f: "0 \<le> \<lfloor>r\<rfloor>"
    by simp
  have "real (nat \<lfloor>r\<rfloor>) = of_int \<lfloor>r\<rfloor>"
    using f by simp
  then have k: "real (nat \<lfloor>r\<rfloor>) = r"
    using r(2) by simp
  then have "nat \<lfloor>r\<rfloor> < length (steps props)"
    using r(4) by linarith
  moreover have "currentStepIndex st = Idx (real (nat \<lfloor>r\<rfloor>))"
    using r(1) k by simp
  moreover have "getStep (currentStepIndex st) (steps props) = Some (steps props ! nat \<lfloor>r\<rfloor>)"
    using r by simp
  ultimately show ?thesis
    by blast
qed

lemma goToStep_rejected:
  "index_lt n 0 \<or> index_ge n (real (length (steps props))) \<Longrightarrow> goToStep props n st = st"
  by (auto simp: goToStep_def)

lemma goToStep_valid:
  assumes "validIndex props st" and "wholeOrRejected props n"
  shows "validIndex props (goToStep props n st)"
proof (cases n)
  case (Idx r)
  then show ?thesis
    using assms by (auto simp: goToStep_def validIndex_def wholeOrRejected_def)
next
  case NaN
  then show ?thesis
    using assms by (simp add: wholeOrRejected_def)
qed

lemma whole_step:
  assumes "validIndex props rendered"
  shows "wholeOrRejected props (index_plus (currentStepIndex rendered) 1)"
    and "wholeOrRejected props (index_minus (currentStepIndex rendered) 1)"
    and "wholeOrRejected props (Idx 0)"
proof -
  obtain r where r: "currentStepIndex rendered = Idx r" "of_int \<lfloor>r\<rfloor> = r"
    using assms unfolding validIndex_cases by blast
  have "of_int \<lfloor>r + 1\<rfloor> = r + 1" "of_int \<lfloor>r - 1\<rfloor> = r - 1"
    using r(2) by simp_all
  then show "wholeOrRejected props (index_plus (currentStepIndex rendered) 1)"
    and "wholeOrRejected props (index_minus (currentStepIndex rendered) 1)"
    using r(1) by (simp_all add: wholeOrRejected_def)
  show "wholeOrRejected props (Idx 0)"
    by (simp add: wholeOrRejected_def)
qed

lemma call_valid:
  assumes "validIndex props rendered" and "validIndex props st"
    and "\<forall>n\<in>set (goToStepArgs [c]). wholeOrRejected props n"
  shows "validIndex props (call props rendered c st)"
proof (cases c)
  case Next
  then show ?thesis
    using assms(2) whole_step(1) [OF assms(1)] by (simp add: nextStep_def goToStep_valid)
next
  case Prev
  then show ?thesis
    using assms(2) whole_step(2) [OF assms(1)] by (simp add: prev_def goToStep_valid)
next
  case Close
  have "validIndex props (goToStep props (Idx 0) st)"
    using assms(2) whole_step(3) [OF assms(1)] by (rule goToStep_valid)
  then show ?thesis
    using Close by (simp add: skip_def validIndex_def)
next
  case (GoToStep n)
  then show ?thesis
    using assms(2,3) by (simp add: goToStep_valid)
qed

lemma goToStepArgs_Cons:
  "set (goToStepArgs (c # cs)) = set (goToStepArgs [c]) \<union> set (goToStepArgs cs)"
  by (cases c) simp_all

lemma calls_valid:
  assumes "validIndex props rendered"
  shows "validIndex props st \<Longrightarrow> \<forall>n\<in>set (goToStepArgs cs). wholeOrRejected props n \<Longrightarrow>
         validIndex props (calls props rendered cs st)"
proof (induction cs arbitrary: st)
  case Nil
  then show ?case by simp
next
  case (Cons c cs)
  from Cons.prems have "validIndex props (call props rendered c st)"
    by (intro call_valid [OF assms]) (simp_all add: goToStepArgs_Cons [of c cs])
  moreover from Cons.prems have "\<forall>n\<in>set (goToStepArgs cs). wholeOrRejected props n"
    by (simp add: goToStepArgs_Cons [of c cs])
  ultimately show ?case
    using Cons.IH by simp
qed

lemma handlers_valid:
  "validIndex props st \<Longrightarrow>
   \<forall>cs\<in>set hs. \<forall>n\<in>set (goToStepArgs cs). wholeOrRejected props n \<Longrightarrow>
   validIndex props (handlers props hs st)"
proof (induction hs arbitrary: st)
  case Nil
  then show ?case by simp
next
  case (Cons cs hs)
  from Cons.prems have "validIndex props (calls props st cs st)"
    by (intro calls_valid) simp_all
  with Cons show ?case by simp
qed

text \<open>
  Claim C9, as amended. A call of \<^verbatim>\<open>goToStep\<close> with an index that is negative, or at
  least the number of steps, leaves the state (so the current step index) as it was.
  From a state whose index is valid (a whole number in \<open>[0, steps.length)\<close>), every
  sequence of event handlers, each making any sequence of \<^verbatim>\<open>next\<close>, \<^verbatim>\<open>prev\<close>,
  \<^verbatim>\<open>skip\<close> and \<^verbatim>\<open>goToStep\<close> calls on the callbacks of the latest render, ends in a
  state whose index is valid, so that \<^verbatim>\<open>getStep\<close> finds its step, provided every
  argument of \<^verbatim>\<open>goToStep\<close> is a whole number or is turned away by the guard (so
  that none is \<^verbatim>\<open>NaN\<close> or a fraction inside the range).
\<close>

theorem goToStep_guard_keeps_index_in_range:
  "(index_lt n 0 \<or> index_ge n (real (length (steps props))) \<longrightarrow> goToStep props n st = st) \<and>
   (validIndex props st \<and>
    (\<forall>cs\<in>set hs. \<forall>m\<in>set (goToStepArgs cs). wholeOrRejected props m) \<longrightarrow>
      (\<exists>k. currentStepIndex (handlers props hs st) = Idx (real k) \<and>
           k < length (steps props) \<and>
           getStep (currentStepIndex (handlers props hs st)) (steps props) =
             Some (steps props ! k)))"
proof (intro conjI impI)
  assume "index_lt n 0 \<or> index_ge n (real (length (steps props)))"
  then show "goToStep props n st = st"
    by (rule goToStep_rejected)
next
  assume "validIndex props st \<and>
    (\<forall>cs\<in>set hs. \<forall>m\<in>set (goToStepArgs cs). wholeOrRejected props m)"
  then have "validIndex props (handlers props hs st)"
    by (simp add: handlers_valid)
  then show "\<exists>k. currentStepIndex (handlers props hs st) = Idx (real k) \<and>
           k < length (steps props) \<and>
           getStep (currentStepIndex (handlers props hs st)) (steps props) =
             Some (steps props ! k)"
    by (rule validIndex_getStep)
qed

theorem goToStep_guard_keeps_index_in_range_witness:
  "(index_lt (Idx 7) 0 \<or> index_ge (Idx 7) (real (length (steps sampleProps)))) \<and>
   goToStep sampleProps (Idx 7) (sampleState (Idx 1)) = sampleState (Idx 1) \<and>
   validIndex sampleProps (sampleState (Idx 1)) \<and>
   list_all (\<lambda>cs. list_all (wholeOrRejected sampleProps) (goToStepArgs cs))
     [[Next, Next], [GoToStep (Idx 7), GoToStep (Idx (15 / 2)), Prev],
      [Close, GoToStep (Idx (- 1)), GoToStep (Idx 2)]] \<and>
   (\<exists>k. currentStepIndex
          (handlers sampleProps
             [[Next, Next], [GoToStep (Idx 7), GoToStep (Idx (15 / 2)), Prev],
              [Close, GoToStep (Idx (- 1)), GoToStep (Idx 2)]]
             (sampleState (Idx 1))) = Idx (real k) \<and>
        k < length (steps sampleProps) \<and>
        getStep (currentStepIndex
                  (handlers sampleProps
                     [[Next, Next], [GoToStep (Idx 7), GoToStep (Idx (15 / 2)), Prev],
                      [Close, GoToStep (Idx (- 1)), GoToStep (Idx 2)]]
                     (sampleState (Idx 1)))) (steps sampleProps) =
          Some (steps sampleProps ! k))"
proof -
  let ?hs = "[[Next, Next], [GoToStep (Idx 7), GoToStep (Idx (15 / 2)), Prev],
              [Close, GoToStep (Idx (- 1)), GoToStep (Idx 2)]]"
  have a: "index_lt (Idx 7) 0 \<or> index_ge (Idx 7) (real (length (steps sampleProps)))"
    by (simp add: sampleProps_def)
  have b: "validIndex sampleProps (sampleState (Idx 1))"
    by (simp add: validIndex_def sampleProps_def sampleState_def)
  have c: "list_all (\<lambda>cs. list_all (wholeOrRejected sampleProps) (goToStepArgs cs)) ?hs"
    by (simp add: wholeOrRejected_def sampleProps_def)
  then have c': "\<forall>cs\<in>set ?hs. \<forall>m\<in>set (goToStepArgs cs). wholeOrRejected sampleProps m"
    unfolding list_all_iff .
  show ?thesis
    using a b c c' goToStep_guard_keeps_index_in_range
      [of "Idx 7" sampleProps "sampleState (Idx 1)" ?hs]
    by blast
qed

text \<open>
  Claim C9 as stated fails. Both comparisons of the guard are false for \<^verbatim>\<open>NaN\<close>, so
  on a tour of three steps at index 1 the call \<^verbatim>\<open>goToStep(NaN)\<close> stores \<^verbatim>\<open>NaN\<close>,
  which is not in \<open>[0, 3)\<close>. The guard also lets the fraction 1.5 through: it lies in
  the interval and is no index of a step, \<^verbatim>\<open>getStep\<close> finds nothing for it and the
  placement effect fails on it.
\<close>

theorem goToStep_NaN_leaves_range:
  "validIndex sampleProps (sampleState (Idx 1)) \<and>
   currentStepIndex (handlers sampleProps [[GoToStep NaN]] (sampleState (Idx 1))) = NaN \<and>
   \<not> (index_ge NaN 0 \<and> index_lt NaN (real (length (steps sampleProps)))) \<and>
   \<not> validIndex sampleProps (handlers sampleProps [[GoToStep NaN]] (sampleState (Idx 1))) \<and>
   currentStepIndex (handlers sampleProps [[GoToStep (Idx (3 / 2))]] (sampleState (Idx 1))) =
     Idx (3 / 2) \<and>
   \<not> validIndex sampleProps
       (handlers sampleProps [[GoToStep (Idx (3 / 2))]] (sampleState (Idx 1))) \<and>
   getStep (Idx (3 / 2)) (steps sampleProps) = None \<and>
   placementEffect samplePositioning sampleDocument sampleStyles sampleProps
     (handlers sampleProps [[GoToStep (Idx (3 / 2))]] (sampleState (Idx 1))) = Inl TypeError"
  by (simp add: validIndex_def sampleProps_def sampleState_def goToStep_def
      placementEffect_def Let_def)

section \<open>The initial step index\<close>

lemma getStep_beyond: "real (length ss) \<le> i \<Longrightarrow> getStep (Idx i) ss = None"
  by simp

lemma merged_lookup:
  "mergedOptions ds props cur k =
     (case spreadStep cur k of
        Some v \<Rightarrow> Some v
      | None \<Rightarrow> (case options props k of
                   Some v \<Rightarrow> Some v
                 | None \<Rightarrow> walktourDefaultProps ds k))"
  by (simp add: mergedOptions_def map_add_def split: option.splits)

lemma default_customTooltipRenderer: "walktourDefaultProps ds ''customTooltipRenderer'' = None"
  by (simp add: walktourDefaultProps_def)

lemma render_without_step:
  assumes "isVisibleState st"
    and "getStep (currentStepIndex st) (steps props) = None"
    and "\<not> truthy (getProp (options props) ''customTooltipRenderer'')"
  shows "render positioning ds props st = Inl TypeError"
proof -
  let ?m = "mergedOptions ds props None"
  have "getProp ?m ''customTooltipRenderer'' = getProp (options props) ''customTooltipRenderer''"
    by (simp add: getProp_def merged_lookup spreadStep_def default_customTooltipRenderer
        split: option.splits)
  with assms(3) have nt: "\<not> truthy (getProp ?m ''customTooltipRenderer'')"
    by simp
  then have c: "renderContent ?m None (currentStepIndex st) (length (steps props)) = Inl TypeError"
    by (simp add: renderContent_def Let_def)
  have "tooltipStyle ?m (tooltipPosition st) = Inl TypeError \<or>
        (\<exists>css. tooltipStyle ?m (tooltipPosition st) = Inr css)"
    using nt by (cases "getProp ?m ''styles''") (simp_all add: tooltipStyle_def)
  then show ?thesis
    using assms(1,2) c by (auto simp: render_def Let_def)
qed

text \<open>
  Claim C10. The initial step index is not validated. When \<^verbatim>\<open>initialStepIndex\<close> is at
  least the number of steps, the component starts with that index, which is out of
  range; \<^verbatim>\<open>getStep\<close> yields \<^verbatim>\<open>undefined\<close> for it without raising; the effect run on
  mount (\<^verbatim>\<open>goToStep(currentStepIndex)\<close>) leaves it in place; and, while the tour is
  visible, the reads of the current step's fields fail with a \<^verbatim>\<open>TypeError\<close>: the read
  of \<^verbatim>\<open>querySelector\<close> in the placement effect, and the read of \<^verbatim>\<open>title\<close> in the
  render when no custom tooltip renderer is given.
\<close>

theorem initialStepIndex_not_validated:
  assumes "initialStepIndex props = Some (Idx i)"
    and "real (length (steps props)) \<le> i"
  shows "currentStepIndex (initialState props) = Idx i \<and>
         \<not> index_lt (currentStepIndex (initialState props)) (real (length (steps props))) \<and>
         \<not> validIndex props (initialState props) \<and>
         getStep (currentStepIndex (initialState props)) (steps props) = None \<and>
         mountEffect props (initialState props) = initialState props \<and>
         (isVisible props \<longrightarrow>
            placementEffect positioning document ds props (initialState props) = Inl TypeError) \<and>
         (isVisible props \<and> \<not> truthy (getProp (options props) ''customTooltipRenderer'') \<longrightarrow>
            render positioning ds props (initialState props) = Inl TypeError)"
proof -
  have idx: "currentStepIndex (initialState props) = Idx i"
    using assms(1) by (simp add: initialState_def)
  have vis: "isVisibleState (initialState props) = isVisible props"
    by (simp add: initialState_def)
  have none: "getStep (currentStepIndex (initialState props)) (steps props) = None"
    using assms(2) idx by (simp add: getStep_beyond)
  have "\<not> index_lt (currentStepIndex (initialState props)) (real (length (steps props)))"
    using assms(2) idx by simp
  moreover have "\<not> validIndex props (initialState props)"
    using assms(2) idx by (simp add: validIndex_def)
  moreover have "mountEffect props (initialState props) = initialState props"
    using assms(2) idx by (simp add: mountEffect_def goToStep_def)
  moreover have "placementEffect positioning document ds props (initialState props) = Inl TypeError"
    if "isVisible props"
    using that vis none by (simp add: placementEffect_def Let_def)
  moreover have "render positioning ds props (initialState props) = Inl TypeError"
    if "isVisible props \<and> \<not> truthy (getProp (options props) ''customTooltipRenderer'')"
    using that vis none by (simp add: render_without_step)
  ultimately show ?thesis
    using idx none by blast
qed

theorem initialStepIndex_not_validated_witness:
  "initialStepIndex (sampleProps\<lparr>initialStepIndex := Some (Idx 3)\<rparr>) = Some (Idx 3) \<and>
   real (length (steps (sampleProps\<lparr>initialStepIndex := Some (Idx 3)\<rparr>))) \<le> 3 \<and>
   isVisible (sampleProps\<lparr>initialStepIndex := Some (Idx 3)\<rparr>) \<and>
   \<not> truthy (getProp (options (sampleProps\<lparr>initialStepIndex := Some (Idx 3)\<rparr>))
               ''customTooltipRenderer'') \<and>
   currentStepIndex (initialState (sampleProps\<lparr>initialStepIndex := Some (Idx 3)\<rparr>)) = Idx 3 \<and>
   getStep (currentStepIndex (initialState (sampleProps\<lparr>initialStepIndex := Some (Idx 3)\<rparr>)))
     (steps (sampleProps\<lparr>initialStepIndex := Some (Idx 3)\<rparr>)) = None \<and>
   placementEffect samplePositioning sampleDocument sampleStyles
     (sampleProps\<lparr>initialStepIndex := Some (Idx 3)\<rparr>)
     (initialState (sampleProps\<lparr>initialStepIndex := Some (Idx 3)\<rparr>)) = Inl TypeError \<and>
   render samplePositioning sampleStyles (sampleProps\<lparr>initialStepIndex := Some (Idx 3)\<rparr>)
     (initialState (sampleProps\<lparr>initialStepIndex := Some (Idx 3)\<rparr>)) = Inl TypeError"
proof -
  let ?props = "sampleProps\<lparr>initialStepIndex := Some (Idx 3)\<rparr>"
  have a: "initialStepIndex ?props = Some (Idx 3)"
    by simp
  have b: "real (length (steps ?props)) \<le> 3"
    by (simp add: sampleProps_def)
  have c: "isVisible ?props"
    by (simp add: sampleProps_def)
  have d: "\<not> truthy (getProp (options ?props) ''customTooltipRenderer'')"
    by (simp add: sampleProps_def getProp_def)
  show ?thesis
    using a b c d
      initialStepIndex_not_validated
        [OF a b, of samplePositioning sampleDocument sampleStyles]
    by blast
qed

section \<open>Option defaults\<close>








section \<open>Target lookup\<close>

lemma getTargetData_cases:
  "getTargetData document selector =
     (case document_querySelector document selector of
        Inl e \<Rightarrow> Inl e
      | Inr None \<Rightarrow>
          Inl (Error (''element specified by  '' @ [CHR 0x22] @ selector @ [CHR 0x22] @
                      '' could not be found''))
      | Inr (Some r) \<Rightarrow> Inr r)"
  by (simp add: getTargetData_def split: sum.splits option.splits)

lemma placementEffect_target_error:
  assumes "isVisibleState st"
    and "getStep (currentStepIndex st) (steps props) = Some step"
    and "getTargetData document (querySelector step) = Inl e"
  shows "placementEffect positioning document ds props st = Inl e"
  using assms by (simp add: placementEffect_def Let_def)

text \<open>
  Claim C4. For a selector that matches an element, \<^verbatim>\<open>getTargetData\<close> returns that
  element's bounding rectangle. For a selector that matches none it throws: the
  \<^verbatim>\<open>Error\<close> with the message naming the selector when the lookup yields nothing, and
  in every case where no element is matched some exception. The exception is not caught:
  the placement effect of a visible tour whose current step has that selector ends with
  the same exception, and stores nothing.
\<close>

theorem getTargetData_throws_or_returns:
  "(document_querySelector document selector = Inr (Some r) \<longrightarrow>
      getTargetData document selector = Inr r) \<and>
   (document_querySelector document selector = Inr None \<longrightarrow>
      getTargetData document selector =
        Inl (Error (''element specified by  '' @ [CHR 0x22] @ selector @ [CHR 0x22] @
                    '' could not be found''))) \<and>
   ((\<forall>r'. document_querySelector document selector \<noteq> Inr (Some r')) \<longrightarrow>
      (\<exists>e. getTargetData document selector = Inl e \<and>
           (isVisibleState st \<and>
            getStep (currentStepIndex st) (steps props) = Some step \<and>
            querySelector step = selector \<longrightarrow>
              placementEffect positioning document ds props st = Inl e)))"
proof (intro conjI impI)
  assume "document_querySelector document selector = Inr (Some r)"
  then show "getTargetData document selector = Inr r"
    by (simp add: getTargetData_cases)
next
  assume "document_querySelector document selector = Inr None"
  then show "getTargetData document selector =
        Inl (Error (''element specified by  '' @ [CHR 0x22] @ selector @ [CHR 0x22] @
                    '' could not be found''))"
    by (simp add: getTargetData_cases)
next
  assume none: "\<forall>r'. document_querySelector document selector \<noteq> Inr (Some r')"
  have "\<exists>e. getTargetData document selector = Inl e"
  proof (cases "document_querySelector document selector")
    case (Inl e)
    then show ?thesis by (simp add: getTargetData_cases)
  next
    case (Inr element)
    with none have "element = None" by (cases element) simp_all
    with Inr show ?thesis by (simp add: getTargetData_cases)
  qed
  then obtain e where e: "getTargetData document selector = Inl e" ..
  have "placementEffect positioning document ds props st = Inl e"
    if "isVisibleState st \<and> getStep (currentStepIndex st) (steps props) = Some step \<and>
        querySelector step = selector"
    using that e by (simp add: placementEffect_target_error)
  with e show "\<exists>e. getTargetData document selector = Inl e \<and>
           (isVisibleState st \<and>
            getStep (currentStepIndex st) (steps props) = Some step \<and>
            querySelector step = selector \<longrightarrow>
              placementEffect positioning document ds props st = Inl e)"
    by blast
qed

theorem getTargetData_throws_or_returns_witness:
  "document_querySelector sampleDocument ''#one'' = Inr (Some (sampleTarget 100)) \<and>
   getTargetData sampleDocument ''#one'' = Inr (sampleTarget 100) \<and>
   document_querySelector sampleDocument ''#missing'' = Inr None \<and>
   (\<forall>r'. document_querySelector sampleDocument ''#missing'' \<noteq> Inr (Some r')) \<and>
   isVisibleState (sampleState (Idx 2)) \<and>
   getStep (currentStepIndex (sampleState (Idx 2))) (steps sampleProps) =
     Some (sampleStep ''#missing'') \<and>
   querySelector (sampleStep ''#missing'') = ''#missing'' \<and>
   getTargetData sampleDocument ''#missing'' =
     Inl (Error (''element specified by  '' @ [CHR 0x22] @ ''#missing'' @ [CHR 0x22] @
                 '' could not be found'')) \<and>
   placementEffect samplePositioning sampleDocument sampleStyles sampleProps (sampleState (Idx 2)) =
     Inl (Error (''element specified by  '' @ [CHR 0x22] @ ''#missing'' @ [CHR 0x22] @
                 '' could not be found''))"
proof -
  have a: "document_querySelector sampleDocument ''#one'' = Inr (Some (sampleTarget 100))"
    by (simp add: sampleDocument_def)
  have b: "document_querySelector sampleDocument ''#missing'' = Inr None"
    by (simp add: sampleDocument_def)
  then have c: "\<forall>r'. document_querySelector sampleDocument ''#missing'' \<noteq> Inr (Some r')"
    by simp
  have d: "isVisibleState (sampleState (Idx 2))"
    by (simp add: sampleState_def)
  have e: "getStep (currentStepIndex (sampleState (Idx 2))) (steps sampleProps) =
             Some (sampleStep ''#missing'')"
    by (simp add: sampleState_def sampleProps_def)
  have f: "querySelector (sampleStep ''#missing'') = ''#missing''"
    by (simp add: sampleStep_def)
  show ?thesis
    using a b c d e f
      getTargetData_throws_or_returns
        [of sampleDocument "''#one''" "sampleTarget 100" "sampleState (Idx 2)" sampleProps
            "sampleStep ''#missing''" samplePositioning sampleStyles]
      getTargetData_throws_or_returns
        [of sampleDocument "''#missing''" "sampleTarget 100" "sampleState (Idx 2)" sampleProps
            "sampleStep ''#missing''" samplePositioning sampleStyles]
    by (metis Inl_inject)
qed

section \<open>The mask and the tooltip style\<close>

text \<open>
  Claim C5. For a target rectangle and a padding, the mask drawn by \<^verbatim>\<open>TourMask\<close> has
  its top and left at the target's page-absolute coordinates, as
  \<^verbatim>\<open>getElementCoords(target, true)\<close> returns them, minus the padding, and its width
  and height are the target's plus twice the padding.
\<close>

theorem TourMask_expands_target:
  "\<exists>m. TourMask positioning (Some t) disableMaskInteraction (Some p) roundedCutout = Some m \<and>
       mask_top m = cy (getElementCoords positioning t True) - p \<and>
       mask_left m = cx (getElementCoords positioning t True) - p \<and>
       mask_width m = rect_width t + 2 * p \<and>
       mask_height m = rect_height t + 2 * p"
  by (simp add: TourMask_def Let_def)

theorem TourMask_expands_target_witness:
  "getElementCoords samplePositioning (sampleTarget (502 / 5)) True = \<lparr>cx = 100, cy = 100\<rparr> \<and>
   (\<exists>m. TourMask samplePositioning (Some (sampleTarget (502 / 5))) False (Some 5) None =
          Some m \<and>
        mask_top m = 95 \<and> mask_left m = 95 \<and> mask_width m = 60 \<and> mask_height m = 60)"
proof -
  have r: "round (502 / 5 :: real) = 100"
    by (simp add: round_def)
  have c: "getElementCoords samplePositioning (sampleTarget (502 / 5)) True =
             \<lparr>cx = 100, cy = 100\<rparr>"
    by (simp add: samplePositioning_def specPositioning_def toAbsoluteCoords_def
        sampleTarget_def r)
  have w: "rect_width (sampleTarget (502 / 5)) = 50" "rect_height (sampleTarget (502 / 5)) = 50"
    by (simp_all add: sampleTarget_def)
  show ?thesis
    using TourMask_expands_target [of samplePositioning "sampleTarget (502 / 5)" False 5 None]
    unfolding c w by simp
qed

lemma tooltipStyle_fields:
  assumes "tooltipStyle merged position = Inr css"
  shows "css ''visibility'' = Some (CssStr (if position \<noteq> None then ''visible'' else ''hidden''))"
    and "css ''top'' = Some (case position of None \<Rightarrow> CssUndefined | Some c \<Rightarrow> CssNum (cy c))"
    and "css ''left'' = Some (case position of None \<Rightarrow> CssUndefined | Some c \<Rightarrow> CssNum (cx c))"
  using assms
  by (auto simp: tooltipStyle_def split: sum.splits if_splits)

lemma tooltipStyle_isl:
  "isl (tooltipStyle merged None) = isl (tooltipStyle merged (Some c))"
  by (simp add: tooltipStyle_def split: sum.splits)

lemma render_style:
  assumes "render positioning ds props st = Inr (Some v)"
  shows "tooltipStyle (mergedOptions ds props (getStep (currentStepIndex st) (steps props)))
           (tooltipPosition st) = Inr (view_tooltipStyle v)"
  using assms
  by (auto simp: render_def Let_def split: if_splits sum.splits)

text \<open>
  Claim C7. An undefined tooltip position is no error: a render fails with an undefined
  position exactly when it fails with a defined one. In every render that draws the
  tooltip, an undefined position gives the style \<^verbatim>\<open>visibility: hidden\<close> with
  \<^verbatim>\<open>top\<close> and \<^verbatim>\<open>left\<close> undefined, and a position \<open>p\<close> gives
  \<^verbatim>\<open>visibility: visible\<close> with \<^verbatim>\<open>top\<close> the \<open>y\<close> and \<^verbatim>\<open>left\<close> the \<open>x\<close> of \<open>p\<close>.
\<close>

theorem tooltip_hidden_until_positioned:
  "isl (render positioning ds props (st\<lparr>tooltipPosition := None\<rparr>)) =
     isl (render positioning ds props (st\<lparr>tooltipPosition := Some c\<rparr>)) \<and>
   (render positioning ds props st = Inr (Some v) \<longrightarrow>
      (tooltipPosition st = None \<longrightarrow>
         view_tooltipStyle v ''visibility'' = Some (CssStr ''hidden'') \<and>
         view_tooltipStyle v ''top'' = Some CssUndefined \<and>
         view_tooltipStyle v ''left'' = Some CssUndefined) \<and>
      (\<forall>p. tooltipPosition st = Some p \<longrightarrow>
         view_tooltipStyle v ''visibility'' = Some (CssStr ''visible'') \<and>
         view_tooltipStyle v ''top'' = Some (CssNum (cy p)) \<and>
         view_tooltipStyle v ''left'' = Some (CssNum (cx p))))"
proof (intro conjI impI allI)
  show "isl (render positioning ds props (st\<lparr>tooltipPosition := None\<rparr>)) =
     isl (render positioning ds props (st\<lparr>tooltipPosition := Some c\<rparr>))"
    using tooltipStyle_isl
      [of "mergedOptions ds props (getStep (currentStepIndex st) (steps props))" c]
    by (auto simp: render_def Let_def split: sum.splits)
next
  assume r: "render positioning ds props st = Inr (Some v)" and n: "tooltipPosition st = None"
  show "view_tooltipStyle v ''visibility'' = Some (CssStr ''hidden'')"
    and "view_tooltipStyle v ''top'' = Some CssUndefined"
    and "view_tooltipStyle v ''left'' = Some CssUndefined"
    using tooltipStyle_fields [OF render_style [OF r]] n by simp_all
next
  fix p
  assume r: "render positioning ds props st = Inr (Some v)" and n: "tooltipPosition st = Some p"
  show "view_tooltipStyle v ''visibility'' = Some (CssStr ''visible'')"
    and "view_tooltipStyle v ''top'' = Some (CssNum (cy p))"
    and "view_tooltipStyle v ''left'' = Some (CssNum (cx p))"
    using tooltipStyle_fields [OF render_style [OF r]] n by simp_all
qed

lemma sample_render_draws:
  "\<exists>v. render samplePositioning sampleStyles sampleProps
         ((sampleState (Idx 0))\<lparr>tooltipPosition := pos\<rparr>) = Inr (Some v)"
  by (simp add: render_def Let_def sampleState_def sampleProps_def
      mergedOptions_def spreadStep_def sampleStep_def walktourDefaultProps_def getProp_def
      tooltipStyle_def renderContent_def renderPart_def renderFooter_def)

theorem tooltip_hidden_until_positioned_witness:
  "(\<exists>v. render samplePositioning sampleStyles sampleProps
          ((sampleState (Idx 0))\<lparr>tooltipPosition := None\<rparr>) = Inr (Some v) \<and>
        tooltipPosition ((sampleState (Idx 0))\<lparr>tooltipPosition := None\<rparr>) = None \<and>
        view_tooltipStyle v ''visibility'' = Some (CssStr ''hidden'') \<and>
        view_tooltipStyle v ''top'' = Some CssUndefined \<and>
        view_tooltipStyle v ''left'' = Some CssUndefined) \<and>
   (\<exists>v. render samplePositioning sampleStyles sampleProps
          ((sampleState (Idx 0))\<lparr>tooltipPosition := Some \<lparr>cx = 100, cy = 165\<rparr>\<rparr>) = Inr (Some v) \<and>
        tooltipPosition ((sampleState (Idx 0))\<lparr>tooltipPosition := Some \<lparr>cx = 100, cy = 165\<rparr>\<rparr>) =
          Some \<lparr>cx = 100, cy = 165\<rparr> \<and>
        view_tooltipStyle v ''visibility'' = Some (CssStr ''visible'') \<and>
        view_tooltipStyle v ''top'' = Some (CssNum 165) \<and>
        view_tooltipStyle v ''left'' = Some (CssNum 100))"
proof (intro conjI)
  let ?st = "(sampleState (Idx 0))\<lparr>tooltipPosition := None\<rparr>"
  obtain v where v: "render samplePositioning sampleStyles sampleProps ?st = Inr (Some v)"
    using sample_render_draws [of None] ..
  have n: "tooltipPosition ?st = None"
    by simp
  show "\<exists>v. render samplePositioning sampleStyles sampleProps ?st = Inr (Some v) \<and>
        tooltipPosition ?st = None \<and>
        view_tooltipStyle v ''visibility'' = Some (CssStr ''hidden'') \<and>
        view_tooltipStyle v ''top'' = Some CssUndefined \<and>
        view_tooltipStyle v ''left'' = Some CssUndefined"
    using v n
      tooltip_hidden_until_positioned
        [of samplePositioning sampleStyles sampleProps ?st "\<lparr>cx = 100, cy = 165\<rparr>" v]
    by blast
next
  let ?p = "\<lparr>cx = 100, cy = 165\<rparr>"
  let ?st = "(sampleState (Idx 0))\<lparr>tooltipPosition := Some ?p\<rparr>"
  obtain v where v: "render samplePositioning sampleStyles sampleProps ?st = Inr (Some v)"
    using sample_render_draws [of "Some ?p"] ..
  have n: "tooltipPosition ?st = Some ?p"
    by simp
  have "view_tooltipStyle v ''visibility'' = Some (CssStr ''visible'') \<and>
        view_tooltipStyle v ''top'' = Some (CssNum (cy ?p)) \<and>
        view_tooltipStyle v ''left'' = Some (CssNum (cx ?p))"
    using v n
      tooltip_hidden_until_positioned
        [of samplePositioning sampleStyles sampleProps ?st ?p v]
    by blast
  then show "\<exists>v. render samplePositioning sampleStyles sampleProps ?st = Inr (Some v) \<and>
        tooltipPosition ?st = Some ?p \<and>
        view_tooltipStyle v ''visibility'' = Some (CssStr ''visible'') \<and>
        view_tooltipStyle v ''top'' = Some (CssNum 165) \<and>
        view_tooltipStyle v ''left'' = Some (CssNum 100)"
    using v n by auto
qed

section \<open>The placement engine\<close>

lemma firstFit_skips:
  "\<forall>b\<in>set before. \<not> fits (cand b) \<Longrightarrow> fits (cand a) \<Longrightarrow>
   firstFit cand (before @ a # after) = Some a"
  by (induction before) simp_all

lemma firstFit_none:
  "\<forall>b\<in>set prefs. \<not> fits (cand b) \<Longrightarrow> firstFit cand prefs = None"
  by (induction prefs) simp_all

lemma effective_prefs:
  "(case before @ a # after of [] \<Rightarrow> ds | x # xs \<Rightarrow> x # xs) = before @ a # after"
  by (cases before) simp_all

lemma resolvePlacement_at_first_fit:
  assumes "tooltip request = Some tt"
    and "orientationPreferences request = Some (before @ a # after)"
    and "\<forall>b\<in>set before. \<not> fits (candidate orient request tt b)"
    and "fits (candidate orient request tt a)"
  shows "resolvePlacement orient defaultOrientations request =
           Some (cand_coords (candidate orient request tt a))"
proof -
  have "firstFit (candidate orient request tt) (before @ a # after) = Some a"
    using assms(3,4) by (rule firstFit_skips)
  then have "chooseOrientation (candidate orient request tt) (before @ a # after) = Some a"
    by (simp add: chooseOrientation_def)
  then show ?thesis
    using assms(1,2) by (simp add: resolvePlacement_def effective_prefs)
qed

text \<open>
  Claim C1. For a request with a measured tooltip whose preference list holds an
  orientation that fits, the resolver returns the coordinates of the first orientation
  of the list that fits (every orientation before it does not fit). In particular, for
  the list \<open>[A, B, C]\<close> where \<open>A\<close> and \<open>B\<close> both fit, the result is the placement computed
  for \<open>A\<close>.
\<close>

theorem resolvePlacement_first_fit:
  "tooltip request = Some tt \<longrightarrow>
     (orientationPreferences request = Some (before @ a # after) \<and>
      (\<forall>b\<in>set before. \<not> fits (candidate orient request tt b)) \<and>
      fits (candidate orient request tt a) \<longrightarrow>
        resolvePlacement orient defaultOrientations request =
          Some (cand_coords (candidate orient request tt a))) \<and>
     (orientationPreferences request = Some [A, B, C] \<and>
      fits (candidate orient request tt A) \<and> fits (candidate orient request tt B) \<longrightarrow>
        resolvePlacement orient defaultOrientations request =
          Some (cand_coords (candidate orient request tt A)))"
proof (intro impI conjI)
  assume "tooltip request = Some tt"
    and "orientationPreferences request = Some (before @ a # after) \<and>
      (\<forall>b\<in>set before. \<not> fits (candidate orient request tt b)) \<and>
      fits (candidate orient request tt a)"
  then show "resolvePlacement orient defaultOrientations request =
          Some (cand_coords (candidate orient request tt a))"
    by (simp add: resolvePlacement_at_first_fit)
next
  assume t: "tooltip request = Some tt"
    and h: "orientationPreferences request = Some [A, B, C] \<and>
      fits (candidate orient request tt A) \<and> fits (candidate orient request tt B)"
  from h have p: "orientationPreferences request = Some ([] @ A # [B, C])"
    by simp
  have n: "\<forall>b\<in>set []. \<not> fits (candidate orient request tt b)"
    by simp
  from h have f: "fits (candidate orient request tt A)"
    by simp
  show "resolvePlacement orient defaultOrientations request =
          Some (cand_coords (candidate orient request tt A))"
    using t p n f by (rule resolvePlacement_at_first_fit)
qed

lemma sample_candidates:
  "candidate sampleOrient (sampleRequest y prefs) sampleTooltip a =
     sampleOrient a (sampleTarget y) sampleTooltip (Some 5) (Some 10)"
  by (simp add: candidate_def sampleRequest_def)

lemma sample_fits_100:
  "fits (sampleOrient ''south'' (sampleTarget 100) sampleTooltip (Some 5) (Some 10))"
  "fits (sampleOrient ''north'' (sampleTarget 100) sampleTooltip (Some 5) (Some 10))"
  by (simp_all add: fits_def sampleOrient_def sampleTarget_def sampleTooltip_def Let_def)

lemma sample_fits_700:
  "\<not> fits (sampleOrient ''south'' (sampleTarget 700) sampleTooltip (Some 5) (Some 10))"
  "fits (sampleOrient ''north'' (sampleTarget 700) sampleTooltip (Some 5) (Some 10))"
  "\<not> fits (sampleOrient ''east'' (sampleTarget 700) sampleTooltip (Some 5) (Some 10))"
  by (simp_all add: fits_def sampleOrient_def sampleTarget_def sampleTooltip_def Let_def)

lemma sample_coords:
  "cand_coords (sampleOrient ''south'' (sampleTarget y) sampleTooltip (Some 5) (Some 10)) =
     \<lparr>cx = 100, cy = y + 65\<rparr>"
  "cand_coords (sampleOrient ''north'' (sampleTarget y) sampleTooltip (Some 5) (Some 10)) =
     \<lparr>cx = 100, cy = y - 95\<rparr>"
  by (simp_all add: sampleOrient_def sampleTarget_def sampleTooltip_def Let_def)

theorem resolvePlacement_first_fit_witness:
  "tooltip (sampleRequest 100 [''south'', ''north'', ''east'']) = Some sampleTooltip \<and>
   orientationPreferences (sampleRequest 100 [''south'', ''north'', ''east'']) =
     Some ([] @ ''south'' # [''north'', ''east'']) \<and>
   fits (candidate sampleOrient (sampleRequest 100 [''south'', ''north'', ''east''])
           sampleTooltip ''south'') \<and>
   fits (candidate sampleOrient (sampleRequest 100 [''south'', ''north'', ''east''])
           sampleTooltip ''north'') \<and>
   resolvePlacement sampleOrient [] (sampleRequest 100 [''south'', ''north'', ''east'']) =
     Some \<lparr>cx = 100, cy = 165\<rparr> \<and>
   tooltip (sampleRequest 700 [''south'', ''north'']) = Some sampleTooltip \<and>
   orientationPreferences (sampleRequest 700 [''south'', ''north'']) =
     Some ([''south''] @ ''north'' # []) \<and>
   \<not> fits (candidate sampleOrient (sampleRequest 700 [''south'', ''north''])
             sampleTooltip ''south'') \<and>
   fits (candidate sampleOrient (sampleRequest 700 [''south'', ''north''])
           sampleTooltip ''north'') \<and>
   resolvePlacement sampleOrient [] (sampleRequest 700 [''south'', ''north'']) =
     Some \<lparr>cx = 100, cy = 605\<rparr>"
proof -
  let ?r1 = "sampleRequest 100 [''south'', ''north'', ''east'']"
  let ?r2 = "sampleRequest 700 [''south'', ''north'']"
  have t: "tooltip ?r1 = Some sampleTooltip" "tooltip ?r2 = Some sampleTooltip"
    by (simp_all add: sampleRequest_def)
  have p1: "orientationPreferences ?r1 = Some ([] @ ''south'' # [''north'', ''east''])"
    and p1': "orientationPreferences ?r1 = Some [''south'', ''north'', ''east'']"
    and p2: "orientationPreferences ?r2 = Some ([''south''] @ ''north'' # [])"
    by (simp_all add: sampleRequest_def)
  have f1: "fits (candidate sampleOrient ?r1 sampleTooltip ''south'')"
    "fits (candidate sampleOrient ?r1 sampleTooltip ''north'')"
    by (simp_all add: sample_candidates sample_fits_100)
  have f2: "\<not> fits (candidate sampleOrient ?r2 sampleTooltip ''south'')"
    "fits (candidate sampleOrient ?r2 sampleTooltip ''north'')"
    by (simp_all add: sample_candidates sample_fits_700)
  have b1: "\<forall>b\<in>set []. \<not> fits (candidate sampleOrient ?r1 sampleTooltip b)"
    by simp
  have b2: "\<forall>b\<in>set [''south'']. \<not> fits (candidate sampleOrient ?r2 sampleTooltip b)"
    using f2(1) by simp
  have "resolvePlacement sampleOrient [] ?r1 =
          Some (cand_coords (candidate sampleOrient ?r1 sampleTooltip ''south''))"
    using t(1) p1 p1' b1 f1
      resolvePlacement_first_fit
        [of ?r1 sampleTooltip "[]" "''south''" "[''north'', ''east'']" sampleOrient "[]"
            "''south''" "''north''" "''east''"]
    by blast
  moreover have "resolvePlacement sampleOrient [] ?r2 =
          Some (cand_coords (candidate sampleOrient ?r2 sampleTooltip ''north''))"
    using t(2) p2 b2 f2
      resolvePlacement_first_fit
        [of ?r2 sampleTooltip "[''south'']" "''north''" "[]" sampleOrient "[]"
            "''south''" "''north''" "''east''"]
    by blast
  ultimately show ?thesis
    using t p1 p2 f1 f2 by (simp add: sample_candidates sample_coords)
qed

text \<open>
  Claim C2. For a request with a measured tooltip where no orientation of the preference
  list fits, the resolver returns a value, the coordinates computed for the first
  element of the list, which does not fit the viewport.
\<close>

theorem resolvePlacement_fallback_first:
  assumes "tooltip request = Some tt"
    and "orientationPreferences request = Some (a # rest)"
    and "\<forall>b\<in>set (a # rest). \<not> fits (candidate orient request tt b)"
  shows "resolvePlacement orient defaultOrientations request =
           Some (cand_coords (candidate orient request tt a)) \<and>
         \<not> fits (candidate orient request tt a)"
proof -
  have "firstFit (candidate orient request tt) (a # rest) = None"
    using assms(3) by (rule firstFit_none)
  then have "chooseOrientation (candidate orient request tt) (a # rest) = Some a"
    by (simp add: chooseOrientation_def)
  then have "resolvePlacement orient defaultOrientations request =
           Some (cand_coords (candidate orient request tt a))"
    using assms(1,2) by (simp add: resolvePlacement_def)
  then show ?thesis
    using assms(3) by simp
qed

theorem resolvePlacement_fallback_first_witness:
  "tooltip (sampleRequest 700 [''south'', ''east'']) = Some sampleTooltip \<and>
   orientationPreferences (sampleRequest 700 [''south'', ''east'']) =
     Some (''south'' # [''east'']) \<and>
   \<not> fits (candidate sampleOrient (sampleRequest 700 [''south'', ''east''])
             sampleTooltip ''south'') \<and>
   \<not> fits (candidate sampleOrient (sampleRequest 700 [''south'', ''east''])
             sampleTooltip ''east'') \<and>
   resolvePlacement sampleOrient [] (sampleRequest 700 [''south'', ''east'']) =
     Some \<lparr>cx = 100, cy = 765\<rparr> \<and>
   (765::real) > 768 - rect_height sampleTooltip"
proof -
  let ?r = "sampleRequest 700 [''south'', ''east'']"
  have t: "tooltip ?r = Some sampleTooltip"
    and p: "orientationPreferences ?r = Some (''south'' # [''east''])"
    by (simp_all add: sampleRequest_def)
  have f: "\<not> fits (candidate sampleOrient ?r sampleTooltip ''south'')"
    "\<not> fits (candidate sampleOrient ?r sampleTooltip ''east'')"
    by (simp_all add: sample_candidates sample_fits_700)
  then have b: "\<forall>b\<in>set (''south'' # [''east'']). \<not> fits (candidate sampleOrient ?r sampleTooltip b)"
    by simp
  have "resolvePlacement sampleOrient [] ?r =
          Some (cand_coords (candidate sampleOrient ?r sampleTooltip ''south''))"
    using resolvePlacement_fallback_first [OF t p b, of "[]"] by simp
  then have c: "resolvePlacement sampleOrient [] ?r = Some \<lparr>cx = 100, cy = 765\<rparr>"
    by (simp add: sample_candidates sample_coords)
  have h: "(765::real) > 768 - rect_height sampleTooltip"
    by (simp add: sampleTooltip_def)
  show ?thesis
    using t p f c h by auto
qed

text \<open>
  Claim C3. For every target rectangle, padding, separation and preference list, the
  resolver returns \<^verbatim>\<open>undefined\<close> when the tooltip rectangle of the request is
  undefined.
\<close>

theorem resolvePlacement_unmeasured:
  "resolvePlacement orient defaultOrientations
     \<lparr> target = t, tooltip = None, padding = p, tooltipSeparation = s,
       orientationPreferences = prefs \<rparr> = None"
  by (simp add: resolvePlacement_def)

theorem resolvePlacement_unmeasured_witness:
  "resolvePlacement sampleOrient [''south'', ''north'', ''east'']
     \<lparr> target = sampleTarget 100, tooltip = None, padding = Some 5,
       tooltipSeparation = Some 10, orientationPreferences = Some [''south''] \<rparr> = None"
  by (rule resolvePlacement_unmeasured)

text \<open>
  Claim C6. For every rectangle \<open>R\<close> and scroll offset \<open>S\<close>, \<^verbatim>\<open>toAbsoluteCoords\<close>
  without rounding returns \<open>x = R.left + S.x\<close> and \<open>y = R.top + S.y\<close>, and with
  rounding it returns these two values rounded to an integer.
\<close>

theorem toAbsoluteCoords_translation_rounding:
  "cx (toAbsoluteCoords S R False) = rect_left R + cx S \<and>
   cy (toAbsoluteCoords S R False) = rect_top R + cy S \<and>
   cx (toAbsoluteCoords S R True) = of_int (round (cx (toAbsoluteCoords S R False))) \<and>
   cy (toAbsoluteCoords S R True) = of_int (round (cy (toAbsoluteCoords S R False)))"
  by (simp add: toAbsoluteCoords_def Let_def)

theorem toAbsoluteCoords_translation_rounding_witness:
  "cx (toAbsoluteCoords \<lparr>cx = 11 / 5, cy = 0\<rparr> (sampleTarget (15 / 2)) False) = 511 / 5 \<and>
   cy (toAbsoluteCoords \<lparr>cx = 11 / 5, cy = 0\<rparr> (sampleTarget (15 / 2)) False) = 15 / 2 \<and>
   cx (toAbsoluteCoords \<lparr>cx = 11 / 5, cy = 0\<rparr> (sampleTarget (15 / 2)) True) = 102 \<and>
   cy (toAbsoluteCoords \<lparr>cx = 11 / 5, cy = 0\<rparr> (sampleTarget (15 / 2)) True) = 8"
proof -
  have r: "round (511 / 5 :: real) = 102" "round (15 / 2 :: real) = 8"
    by (simp_all add: round_def)
  have R: "rect_left (sampleTarget (15 / 2)) = 100" "rect_top (sampleTarget (15 / 2)) = 15 / 2"
    by (simp_all add: sampleTarget_def)
  have x: "cx (toAbsoluteCoords \<lparr>cx = 11 / 5, cy = 0\<rparr> (sampleTarget (15 / 2)) False) = 511 / 5"
    and y: "cy (toAbsoluteCoords \<lparr>cx = 11 / 5, cy = 0\<rparr> (sampleTarget (15 / 2)) False) = 15 / 2"
    using toAbsoluteCoords_translation_rounding
      [of "\<lparr>cx = 11 / 5, cy = 0\<rparr>" "sampleTarget (15 / 2)"]
    by (simp_all add: R)
  show ?thesis
    using toAbsoluteCoords_translation_rounding
      [of "\<lparr>cx = 11 / 5, cy = 0\<rparr>" "sampleTarget (15 / 2)"]
    unfolding x y r by simp
qed

end
